theory Spec2Isabelle
  imports Main
begin

section \<open>Levels\<close>

text \<open>
  \<^verbatim>\<open>type Level int\<close> with the constants \<^verbatim>\<open>DEBUG Level = iota; INFO; WARN; ERROR\<close>.
  A Level is an integer: the four constants are the values 0 to 3, and every other
  integer is a value of the type as well.
\<close>

type_synonym Level = int

definition DEBUG :: Level where "DEBUG = 0"
definition INFO :: Level where "INFO = 1"
definition WARN :: Level where "WARN = 2"
definition ERROR :: Level where "ERROR = 3"

text \<open>The run-time panics of the two source files.\<close>

datatype panic = IndexOutOfRange | TypeAssertionFailed

text \<open>
  \<^verbatim>\<open>func (l Level) String() string\<close> indexes a four-element array literal with the
  level; an index outside 0..3 is a run-time panic.
\<close>

definition level_names :: "string list" where
  "level_names = [''debug'', ''info'', ''warning'', ''error'']"

definition Level_String :: "Level \<Rightarrow> panic + string" where
  "Level_String l =
     (if 0 \<le> l \<and> l < int (length level_names) then Inr (level_names ! nat l)
      else Inl IndexOutOfRange)"

text \<open>
  \<^verbatim>\<open>var lookupMap = map[string]Level{...}\<close> and \<^verbatim>\<open>GetLevel\<close>, which reads the map; a
  missing key reads as the zero value of Level.
\<close>

definition lookupMap :: "string \<rightharpoonup> Level" where
  "lookupMap = [''debug'' \<mapsto> DEBUG, ''info'' \<mapsto> INFO, ''warn'' \<mapsto> WARN, ''error'' \<mapsto> ERROR]"

definition GetLevel :: "string \<Rightarrow> Level" where
  "GetLevel s = (case lookupMap s of Some l \<Rightarrow> l | None \<Rightarrow> 0)"

text \<open>The levels of the logging library, and \<^verbatim>\<open>toLogrusLevel\<close> with its default branch.\<close>

datatype logrus_Level =
  PanicLevel | FatalLevel | ErrorLevel | WarnLevel | InfoLevel | DebugLevel | TraceLevel

definition toLogrusLevel :: "Level \<Rightarrow> logrus_Level" where
  "toLogrusLevel l =
     (if l = DEBUG then DebugLevel
      else if l = INFO then InfoLevel
      else if l = WARN then WarnLevel
      else if l = ERROR then ErrorLevel
      else InfoLevel)"

section \<open>Logger\<close>

text \<open>
  Field values are \<^verbatim>\<open>interface{}\<close> values: strings, errors, integers, durations, header
  sets, nil, and any other value (decoded JSON documents among them).
\<close>

type_synonym bytes = "char list"

datatype 'j gvalue =
    GNil
  | GString string
  | GInt int
  | GError string
  | GDuration int
  | GHeader "string \<rightharpoonup> string list"
  | GOther 'j

type_synonym 'j Fields = "string \<rightharpoonup> 'j gvalue"

definition TagKey :: string where "TagKey = ''tag''"
definition ErrorKey :: string where "ErrorKey = ''error''"
definition StacktraceKey :: string where "StacktraceKey = ''stack_trace''"

text \<open>
  \<^verbatim>\<open>fmt.Sprintf("%+v", val)\<close>: a string prints as itself; the rendering of every other
  value is the parameter \<open>fmtv\<close>.
\<close>

definition Sprintf_plus_v :: "('j gvalue \<Rightarrow> string) \<Rightarrow> 'j gvalue \<Rightarrow> string" where
  "Sprintf_plus_v fmtv val = (case val of GString s \<Rightarrow> s | _ \<Rightarrow> fmtv val)"

text \<open>
  \<^verbatim>\<open>type Logger struct { logger *logrus.Entry }\<close>. The entry holds the library logger
  (its level and its output) and the accumulated fields. \<^verbatim>\<open>New\<close> is the only place where a
  library logger is made, and nothing changes it afterwards, so it is kept by value.
\<close>

datatype writer = Stdout | Writer nat

record 'j Logger =
  Level_of :: logrus_Level
  Out :: writer
  Data :: "'j Fields"

record 'j log_entry =
  severity :: logrus_Level
  message :: string
  entry_fields :: "'j Fields"

text \<open>What has been written to each output so far.\<close>

type_synonym 'j sinks = "writer \<Rightarrow> 'j log_entry list"

definition New :: "Level \<Rightarrow> writer \<Rightarrow> 'j Logger" where
  "New l w = \<lparr>Level_of = toLogrusLevel l, Out = w, Data = Map.empty\<rparr>"

fun level_rank :: "logrus_Level \<Rightarrow> nat" where
  "level_rank PanicLevel = 0"
| "level_rank FatalLevel = 1"
| "level_rank ErrorLevel = 2"
| "level_rank WarnLevel = 3"
| "level_rank InfoLevel = 4"
| "level_rank DebugLevel = 5"
| "level_rank TraceLevel = 6"

text \<open>
  Modelled from the spec: \<^verbatim>\<open>logrus.Entry.Logln\<close> is library code, not part of src/. An
  entry at the given level with the receiver's accumulated fields is written to the
  output when the level is enabled by the configured minimum; otherwise nothing happens.
\<close>

definition Logln :: "'j Logger \<Rightarrow> logrus_Level \<Rightarrow> string \<Rightarrow> 'j sinks \<Rightarrow> 'j sinks" where
  "Logln l lv msg s =
     (if level_rank lv \<le> level_rank (Level_of l)
      then s(Out l := s (Out l) @ [\<lparr>severity = lv, message = msg, entry_fields = Data l\<rparr>])
      else s)"

definition Debugln :: "'j Logger \<Rightarrow> string \<Rightarrow> 'j sinks \<Rightarrow> 'j sinks" where
  "Debugln l msg s = Logln l DebugLevel msg s"

definition Infoln :: "'j Logger \<Rightarrow> string \<Rightarrow> 'j sinks \<Rightarrow> 'j sinks" where
  "Infoln l msg s = Logln l InfoLevel msg s"

definition Warnln :: "'j Logger \<Rightarrow> string \<Rightarrow> 'j sinks \<Rightarrow> 'j sinks" where
  "Warnln l msg s = Logln l WarnLevel msg s"

definition Errorln :: "'j Logger \<Rightarrow> string \<Rightarrow> 'j sinks \<Rightarrow> 'j sinks" where
  "Errorln l msg s = Logln l ErrorLevel msg s"

text \<open>
  Modelled from the spec: \<^verbatim>\<open>logrus.Entry.WithFields\<close> is library code, not part of src/.
  It returns a new entry whose fields are the receiver's fields merged with the mapping,
  the mapping winning on a collision; the receiver is left as it was.
\<close>

definition logrus_WithFields :: "'j Logger \<Rightarrow> 'j Fields \<Rightarrow> 'j Logger" where
  "logrus_WithFields l flds = l\<lparr>Data := Data l ++ flds\<rparr>"

text \<open>
  \<^verbatim>\<open>func (l Logger) WithFields(fields map[string]interface{}) Logger\<close>. A Go map is a
  reference: the assignment to \<^verbatim>\<open>fields[StacktraceKey]\<close> changes the caller's map. The
  model returns the new logger, the caller's map as the call leaves it, and the outputs.
\<close>

definition WithFields ::
  "('j gvalue \<Rightarrow> string) \<Rightarrow> 'j Logger \<Rightarrow> 'j Fields \<Rightarrow> 'j sinks
     \<Rightarrow> 'j Logger \<times> 'j Fields \<times> 'j sinks" where
  "WithFields fmtv l flds s =
     (let flds' =
            (case flds ErrorKey of
               Some val \<Rightarrow> flds(StacktraceKey \<mapsto> GString (Sprintf_plus_v fmtv val))
             | None \<Rightarrow> flds)
      in (logrus_WithFields l flds', flds', s))"

text \<open>The chained call \<^verbatim>\<open>l.WithFields(f1).WithFields(f2)\<close>.\<close>

definition WithFields2 ::
  "('j gvalue \<Rightarrow> string) \<Rightarrow> 'j Logger \<Rightarrow> 'j Fields \<Rightarrow> 'j Fields \<Rightarrow> 'j sinks
     \<Rightarrow> 'j Logger \<times> 'j sinks" where
  "WithFields2 fmtv l f1 f2 s =
     (case WithFields fmtv l f1 s of
        (l1, f1', s1) \<Rightarrow> (case WithFields fmtv l1 f2 s1 of (l2, f2', s2) \<Rightarrow> (l2, s2)))"

section \<open>Response recorder\<close>

text \<open>A byte slice may be nil: \<open>None\<close> is the nil slice.\<close>

type_synonym byte_slice = "bytes option"

text \<open>
  The wrapped \<^verbatim>\<open>http.ResponseWriter\<close> is an interface value supplied by the server. It is
  kept as its header collection, the calls forwarded to it so far, and the result with
  which it answers a Write (a count and an error, if any).
\<close>

datatype rw_call = Sent_WriteHeader int | Sent_Write byte_slice

record ResponseWriter =
  rw_Header :: "string \<rightharpoonup> string list"
  rw_calls :: "rw_call list"
  rw_result :: "byte_slice \<Rightarrow> int \<times> string option"



record ResponseWriterRecorder =
  status :: int
  body :: byte_slice
  responseWriter :: ResponseWriter
  isStatusSet :: bool

definition NewResponseWriterRecorder :: "ResponseWriter \<Rightarrow> ResponseWriterRecorder" where
  "NewResponseWriterRecorder w =
     \<lparr>status = 200, body = None, responseWriter = w, isStatusSet = False\<rparr>"

definition Status :: "ResponseWriterRecorder \<Rightarrow> int" where
  "Status r = status r"

definition Body :: "ResponseWriterRecorder \<Rightarrow> byte_slice" where
  "Body r = body r"

definition Header :: "ResponseWriterRecorder \<Rightarrow> string \<rightharpoonup> string list" where
  "Header r = rw_Header (responseWriter r)"








section \<open>Correlation context\<close>

text \<open>
  A context is a chain of key/value layers, the innermost first. Keys are compared with
  their type: \<^verbatim>\<open>contextKey("requestId")\<close> is not the plain string \<^verbatim>\<open>"requestId"\<close>. A value is
  any \<^verbatim>\<open>interface{}\<close> value; a lookup that finds no layer gives nil.
\<close>

datatype ctx_key = contextKey string | other_key string

definition ContextKeyRequestID :: ctx_key where
  "ContextKeyRequestID = contextKey ''requestId''"

definition ContextKeyLogger :: ctx_key where
  "ContextKeyLogger = contextKey ''logger''"

datatype 'j ctx_value = VNil | VString string | VLogger "'j Logger" | VInt int

type_synonym 'j Context = "(ctx_key \<times> 'j ctx_value) list"

definition ctx_WithValue :: "'j Context \<Rightarrow> ctx_key \<Rightarrow> 'j ctx_value \<Rightarrow> 'j Context" where
  "ctx_WithValue ctx k v = (k, v) # ctx"

fun ctx_Value :: "'j Context \<Rightarrow> ctx_key \<Rightarrow> 'j ctx_value" where
  "ctx_Value [] k = VNil"
| "ctx_Value ((k', v) # ctx) k = (if k' = k then v else ctx_Value ctx k)"

text \<open>
  \<^verbatim>\<open>GetRequestID\<close>: nil gives the sentinel; otherwise the type assertion
  \<^verbatim>\<open>requestID.(string)\<close> returns the string, and panics on a value of any other type.
\<close>

definition GetRequestID :: "'j Context \<Rightarrow> panic + string" where
  "GetRequestID ctx =
     (case ctx_Value ctx ContextKeyRequestID of
        VNil \<Rightarrow> Inr ''Unknown''
      | VString requestID \<Rightarrow> Inr requestID
      | _ \<Rightarrow> Inl TypeAssertionFailed)"

definition WithLogger :: "'j Context \<Rightarrow> 'j Logger \<Rightarrow> 'j Context" where
  "WithLogger ctx logger = ctx_WithValue ctx ContextKeyLogger (VLogger logger)"

definition GetLogger :: "'j Context \<Rightarrow> panic + 'j Logger" where
  "GetLogger ctx =
     (case ctx_Value ctx ContextKeyLogger of
        VNil \<Rightarrow> Inr (New INFO Stdout)
      | VLogger logger \<Rightarrow> Inr logger
      | _ \<Rightarrow> Inl TypeAssertionFailed)"

section \<open>Middleware\<close>

text \<open>
  A request body is \<^verbatim>\<open>http.NoBody\<close> or a stream: the bytes it still yields, and how it
  ends (end of file, or a read error). Reading to the end returns the bytes and the error,
  and leaves the stream with nothing more to yield.
\<close>

datatype ReadCloser = NoBody | Reader bytes "string option"

fun ReadAll :: "ReadCloser \<Rightarrow> (bytes \<times> string option) \<times> ReadCloser" where
  "ReadAll NoBody = (([], None), NoBody)"
| "ReadAll (Reader buf err) = ((buf, err), Reader [] err)"

definition yields :: "ReadCloser \<Rightarrow> bytes" where
  "yields b = fst (fst (ReadAll b))"

record 'j Request =
  req_Body :: ReadCloser
  RemoteAddr :: string
  Proto :: string
  Method :: string
  req_Header :: "string \<rightharpoonup> string list"
  RequestURI :: string
  URL_Path :: string
  req_Context :: "'j Context"

definition UserAgent :: "'j Request \<Rightarrow> string" where
  "UserAgent r = (case req_Header r ''User-Agent'' of Some (v # vs) \<Rightarrow> v | _ \<Rightarrow> [])"

record MiddlewareOptions =
  LogResponse :: bool

text \<open>
  \<^verbatim>\<open>convertRequestBody\<close>: a type switch whose every branch returns the value it was given.
\<close>

definition convertRequestBody :: "'j gvalue \<Rightarrow> 'j gvalue" where
  "convertRequestBody requestBody =
     (case requestBody of GString m \<Rightarrow> GString m | GOther m \<Rightarrow> GOther m | _ \<Rightarrow> requestBody)"

text \<open>
  \<^verbatim>\<open>logRequest\<close>. The request is a pointer, so the assignment to \<^verbatim>\<open>r.Body\<close> is seen by the
  caller: the model returns the request as the call leaves it. \<open>unm\<close> is
  \<^verbatim>\<open>json.Unmarshal\<close> into an empty interface: an error or the decoded value.
\<close>

definition logRequest ::
  "('j gvalue \<Rightarrow> string) \<Rightarrow> (bytes \<Rightarrow> string + 'j gvalue) \<Rightarrow> 'j Logger \<Rightarrow> 'j Request \<Rightarrow> 'j sinks
     \<Rightarrow> 'j Request \<times> 'j sinks" where
  "logRequest fmtv unm logger r s =
     (let (requestBody, logger1, r1, s1) =
            (if req_Body r \<noteq> NoBody then
               (case ReadAll (req_Body r) of
                  ((buf, Some err), rest) \<Rightarrow>
                    (case WithFields fmtv logger [''bodyError'' \<mapsto> GError err] s of
                       (l', m', s') \<Rightarrow> (GNil, l', r\<lparr>req_Body := rest\<rparr>, s'))
                | ((buf, None), rest) \<Rightarrow>
                    (case unm buf of
                       Inl err \<Rightarrow>
                         (case WithFields fmtv logger [''bodyError'' \<mapsto> GError err] s of
                            (l', m', s') \<Rightarrow>
                              (GString buf, l', r\<lparr>req_Body := Reader buf None\<rparr>, s'))
                     | Inr v \<Rightarrow> (v, logger, r\<lparr>req_Body := Reader buf None\<rparr>, s)))
             else (GNil, logger, r, s));
          m = convertRequestBody requestBody;
          (logger2, m2, s2) =
            WithFields fmtv logger1
              [''remoteAddr'' \<mapsto> GString (RemoteAddr r1),
               ''protocol'' \<mapsto> GString (Proto r1),
               ''method'' \<mapsto> GString (Method r1),
               ''header'' \<mapsto> GHeader (req_Header r1),
               ''uri'' \<mapsto> GString (RequestURI r1),
               ''userAgent'' \<mapsto> GString (UserAgent r1),
               ''requestBody'' \<mapsto> m] s1
      in (r1, Debugln logger2 [] s2))"

text \<open>
  \<^verbatim>\<open>logResponse\<close>; \<open>elapsed\<close> is the value of \<^verbatim>\<open>time.Since(start)\<close> when it runs.
\<close>

definition logResponse ::
  "('j gvalue \<Rightarrow> string) \<Rightarrow> (bytes \<Rightarrow> string + 'j gvalue) \<Rightarrow> int \<Rightarrow> 'j Logger \<Rightarrow> 'j Request
     \<Rightarrow> ResponseWriterRecorder \<Rightarrow> 'j sinks \<Rightarrow> 'j sinks" where
  "logResponse fmtv unm elapsed logger r w s =
     (let (responseBody, logger1, s1) =
            (case Body w of
               Some b \<Rightarrow>
                 (case unm b of
                    Inl err \<Rightarrow>
                      (case WithFields fmtv logger [''bodyError'' \<mapsto> GError err] s of
                         (l', m', s') \<Rightarrow> (GString b, l', s'))
                  | Inr v \<Rightarrow> (v, logger, s))
             | None \<Rightarrow> (GNil, logger, s));
          (logger2, m2, s2) =
            WithFields fmtv logger1
              [''duration'' \<mapsto> GDuration elapsed,
               ''header'' \<mapsto> GHeader (Header w),
               ''responseBody'' \<mapsto> responseBody,
               ''status'' \<mapsto> GInt (Status w),
               ''api'' \<mapsto> GString (Method r @ ''_'' @ URL_Path r)] s1
      in Debugln logger2 [] s2)"

text \<open>
  The downstream handler is any function of the recorder, the request and the outputs.
  It ends by returning or by panicking, and leaves the recorder, the request and the
  outputs as its calls made them.
\<close>

datatype outcome = Returned | Panicked

type_synonym 'j Handler =
  "ResponseWriterRecorder \<Rightarrow> 'j Request \<Rightarrow> 'j sinks
     \<Rightarrow> outcome \<times> ResponseWriterRecorder \<times> 'j Request \<times> 'j sinks"

text \<open>
  The state of one request while the middleware's function runs, with the list of the
  steps taken so far (the calls to logRequest, to the downstream handler and to
  logResponse, in the order they are made).
\<close>

datatype step = Step_logRequest | Step_next | Step_logResponse

record 'j frame =
  fr_recorder :: ResponseWriterRecorder
  fr_request :: "'j Request"
  fr_sinks :: "'j sinks"
  fr_steps :: "step list"

text \<open>
  \<^verbatim>\<open>defer\<close>: the deferred calls run when the function ends, by a return or by a panic, the
  last deferred first.
\<close>

definition run_deferred :: "('j frame \<Rightarrow> 'j frame) list \<Rightarrow> 'j frame \<Rightarrow> 'j frame" where
  "run_deferred ds fr = fold (\<lambda>d. d) ds fr"

text \<open>What the clock and the identifier generator give during one request.\<close>

record env =
  uuid_New :: string
  time_Since :: int

text \<open>
  \<^verbatim>\<open>Header().Add(key, value)\<close> on the header collection of the wrapped writer, which the
  recorder shares with it. The key is kept as the source writes it.
\<close>

definition Header_Add ::
  "ResponseWriterRecorder \<Rightarrow> string \<Rightarrow> string \<Rightarrow> ResponseWriterRecorder" where
  "Header_Add rec k v =
     rec\<lparr>responseWriter := (responseWriter rec)
       \<lparr>rw_Header := (rw_Header (responseWriter rec))
          (k \<mapsto> (case rw_Header (responseWriter rec) k of None \<Rightarrow> [v] | Some vs \<Rightarrow> vs @ [v]))\<rparr>\<rparr>"

text \<open>
  The function that \<^verbatim>\<open>NewMiddlewareWithOptions\<close> returns, for the logger it has settled
  on. The arguments of the deferred call are fixed when it is deferred; the request and
  the recorder are pointers, so the deferred call reads them as the handler left them.
\<close>

definition middleware_func ::
  "('j gvalue \<Rightarrow> string) \<Rightarrow> (bytes \<Rightarrow> string + 'j gvalue) \<Rightarrow> 'j Handler \<Rightarrow> 'j Logger
     \<Rightarrow> MiddlewareOptions \<Rightarrow> env \<Rightarrow> ResponseWriter \<Rightarrow> 'j Request \<Rightarrow> 'j sinks
     \<Rightarrow> outcome \<times> 'j frame" where
  "middleware_func fmtv unm next logger options e w r s =
     (let requestID = uuid_New e;
          ctx = ctx_WithValue (req_Context r) ContextKeyRequestID (VString requestID);
          r1 = r\<lparr>req_Context := ctx\<rparr>;
          (loggerWithRequestID, m, s1) =
            WithFields fmtv logger [''requestId'' \<mapsto> GString requestID] s;
          r2 = r1\<lparr>req_Context := WithLogger (req_Context r1) loggerWithRequestID\<rparr>;
          (r3, s2) = logRequest fmtv unm loggerWithRequestID r2 s1;
          responseWriterRecorder = NewResponseWriterRecorder w;
          deferred =
            (if LogResponse options
             then [\<lambda>fr. fr\<lparr>fr_sinks := logResponse fmtv unm (time_Since e) loggerWithRequestID
                                          (fr_request fr) (fr_recorder fr) (fr_sinks fr),
                            fr_steps := fr_steps fr @ [Step_logResponse]\<rparr>]
             else []);
          rec1 = Header_Add responseWriterRecorder ''Request-ID'' requestID;
          (oc, rec2, r4, s3) = next rec1 r3 s2
      in (oc, run_deferred deferred
                \<lparr>fr_recorder = rec2, fr_request = r4, fr_sinks = s3,
                 fr_steps = [Step_logRequest, Step_next]\<rparr>))"

text \<open>
  \<^verbatim>\<open>&logger\<close> is the address of the parameter, which is stored at some location; the
  address-of operator gives the pointer to that location.
\<close>

datatype pointer = nil_pointer | Address nat

definition address_of :: "nat \<Rightarrow> pointer" where
  "address_of loc = Address loc"

definition middleware_logger :: "nat \<Rightarrow> 'j Logger \<Rightarrow> 'j Logger" where
  "middleware_logger loc logger =
     (if address_of loc = nil_pointer then New INFO Stdout else logger)"

definition NewMiddlewareWithOptions ::
  "('j gvalue \<Rightarrow> string) \<Rightarrow> (bytes \<Rightarrow> string + 'j gvalue) \<Rightarrow> nat \<Rightarrow> 'j Handler \<Rightarrow> 'j Logger
     \<Rightarrow> MiddlewareOptions \<Rightarrow> env \<Rightarrow> ResponseWriter \<Rightarrow> 'j Request \<Rightarrow> 'j sinks
     \<Rightarrow> outcome \<times> 'j frame" where
  "NewMiddlewareWithOptions fmtv unm loc next logger options =
     middleware_func fmtv unm next (middleware_logger loc logger) options"

definition NewMiddleware ::
  "('j gvalue \<Rightarrow> string) \<Rightarrow> (bytes \<Rightarrow> string + 'j gvalue) \<Rightarrow> nat \<Rightarrow> 'j Handler \<Rightarrow> 'j Logger
     \<Rightarrow> env \<Rightarrow> ResponseWriter \<Rightarrow> 'j Request \<Rightarrow> 'j sinks \<Rightarrow> outcome \<times> 'j frame" where
  "NewMiddleware fmtv unm loc next logger =
     NewMiddlewareWithOptions fmtv unm loc next logger \<lparr>LogResponse = True\<rparr>"

text \<open>Inputs used in the examples below.\<close>

definition fmt_unit :: "unit gvalue \<Rightarrow> string" where
  "fmt_unit val = ''<value>''"

definition no_output :: "unit sinks" where
  "no_output w = []"


definition unm_fail :: "bytes \<Rightarrow> string + unit gvalue" where
  "unm_fail b = Inl ''invalid character''"



definition example_request :: "ReadCloser \<Rightarrow> unit Request" where
  "example_request b =
     \<lparr>req_Body = b, RemoteAddr = ''10.0.0.1:4000'', Proto = ''HTTP/1.1'', Method = ''POST'',
      req_Header = Map.empty, RequestURI = ''/items'', URL_Path = ''/items'', req_Context = []\<rparr>"

section \<open>Properties of levels\<close>

lemma Level_String_named:
  "Level_String DEBUG = Inr ''debug''" "Level_String INFO = Inr ''info''"
  "Level_String WARN = Inr ''warning''" "Level_String ERROR = Inr ''error''"
  by (simp_all add: Level_String_def level_names_def DEBUG_def INFO_def WARN_def ERROR_def)

lemma GetLevel_named:
  "GetLevel ''debug'' = DEBUG" "GetLevel ''info'' = INFO"
  "GetLevel ''warn'' = WARN" "GetLevel ''error'' = ERROR"
  by (simp_all add: GetLevel_def lookupMap_def)

lemma GetLevel_unrecognized:
  "s \<notin> {''debug'', ''info'', ''warn'', ''error''} \<Longrightarrow> GetLevel s = DEBUG"
  by (simp add: GetLevel_def lookupMap_def DEBUG_def)

text \<open>
  C7. The name of WARN is \<open>warning\<close>, a key the lookup map does not have (its key is
  \<open>warn\<close>), so reading the name of WARN back gives the zero level DEBUG and not WARN.
  The other three levels do come back.
\<close>

theorem GetLevel_String_WARN:
  "Level_String WARN = Inr ''warning'' \<and> GetLevel ''warning'' = DEBUG \<and> DEBUG \<noteq> WARN
   \<and> GetLevel ''debug'' = DEBUG \<and> GetLevel ''info'' = INFO \<and> GetLevel ''error'' = ERROR"
  by (simp add: Level_String_def level_names_def GetLevel_def lookupMap_def
      DEBUG_def INFO_def WARN_def ERROR_def)

text \<open>
  C8. The value 4 of the Level type is outside the array that String indexes: the call
  panics and returns no name, while toLogrusLevel takes the same value through its
  default branch.
\<close>

theorem Level_String_out_of_range:
  "Level_String 4 = Inl IndexOutOfRange \<and> toLogrusLevel 4 = InfoLevel"
  by (simp add: Level_String_def level_names_def toLogrusLevel_def
      DEBUG_def INFO_def WARN_def ERROR_def)

section \<open>Properties of the logger\<close>

lemma WithFields_result:
  "WithFields fmtv l flds s =
     (l\<lparr>Data := Data l ++ flds ++
          (case flds ''error'' of None \<Rightarrow> Map.empty
           | Some val \<Rightarrow> [''stack_trace'' \<mapsto> GString (Sprintf_plus_v fmtv val)])\<rparr>,
      (case flds ''error'' of None \<Rightarrow> flds
       | Some val \<Rightarrow> flds(''stack_trace'' \<mapsto> GString (Sprintf_plus_v fmtv val))),
      s)"
  by (simp add: WithFields_def logrus_WithFields_def Let_def ErrorKey_def StacktraceKey_def
      split: option.splits)

text \<open>
  C1. The logger returned by \<open>L.WithFields(F1).WithFields(F2)\<close> has the fields of L,
  overlaid with F1 and then with F2, so F2 wins on a key both have; a mapping that
  contains \<open>error\<close> also contributes \<open>stack_trace\<close>, the rendering of its error value.
  When neither mapping contains \<open>error\<close> the fields are exactly those of L, F1 and F2.
  Nothing is written to any output, and L logs afterwards what it logged before.
\<close>

theorem WithFields_chain:
  "Data (fst (WithFields2 fmtv l f1 f2 s)) =
     Data l ++ f1 ++
       (case f1 ''error'' of None \<Rightarrow> Map.empty
        | Some val \<Rightarrow> [''stack_trace'' \<mapsto> GString (Sprintf_plus_v fmtv val)]) ++
     f2 ++
       (case f2 ''error'' of None \<Rightarrow> Map.empty
        | Some val \<Rightarrow> [''stack_trace'' \<mapsto> GString (Sprintf_plus_v fmtv val)])
   \<and> (f1 ''error'' = None \<and> f2 ''error'' = None \<longrightarrow>
        Data (fst (WithFields2 fmtv l f1 f2 s)) = Data l ++ f1 ++ f2)
   \<and> snd (WithFields2 fmtv l f1 f2 s) = s
   \<and> Logln l lv msg (snd (WithFields2 fmtv l f1 f2 s)) = Logln l lv msg s"
  by (simp add: WithFields2_def WithFields_result split: option.splits)

theorem WithFields_chain_witness:
  "[''a'' \<mapsto> GString ''x'', ''b'' \<mapsto> GString ''y''] ''error'' = None
   \<and> [''b'' \<mapsto> GString ''z''] ''error'' = None
   \<and> Data (fst (WithFields2 fmt_unit (New INFO Stdout)
        [''a'' \<mapsto> GString ''x'', ''b'' \<mapsto> GString ''y''] [''b'' \<mapsto> GString ''z''] no_output))
      = [''a'' \<mapsto> GString ''x'', ''b'' \<mapsto> GString ''z'']"
  using WithFields_chain [of fmt_unit "New INFO Stdout"
      "[''a'' \<mapsto> GString ''x'', ''b'' \<mapsto> GString ''y'']" "[''b'' \<mapsto> GString ''z'']" no_output]
  by (simp add: New_def)

text \<open>
  With F1 holding only \<open>error\<close> and F2 empty, on a new logger, the returned logger has a
  \<open>stack_trace\<close> field, which neither mapping has: its fields are not the union of the two.
\<close>

theorem WithFields_chain_counterexample:
  "Data (fst (WithFields2 fmt_unit (New INFO Stdout) [''error'' \<mapsto> GString ''boom''] Map.empty
       no_output))
     \<noteq> [''error'' \<mapsto> GString ''boom''] ++ Map.empty"
proof -
  let ?d = "Data (fst (WithFields2 fmt_unit (New INFO Stdout) [''error'' \<mapsto> GString ''boom'']
              Map.empty no_output))"
  have v: "?d ''stack_trace'' = Some (GString ''boom'')"
    by (simp add: WithFields2_def WithFields_result New_def Sprintf_plus_v_def)
  have "([''error'' \<mapsto> GString ''boom''] ++ Map.empty) ''stack_trace''
          = (None :: unit gvalue option)"
    by simp
  with v show ?thesis
    by (metis option.distinct(1))
qed

text \<open>
  C5. For a mapping that contains \<open>error\<close>, the logger returned by WithFields has the field
  \<open>stack_trace\<close>, a string: the rendering of the error value with \<^verbatim>\<open>%+v\<close>, made during the
  call. The error field itself is there as well.
\<close>

theorem WithFields_stack_trace:
  "flds ''error'' = Some val \<Longrightarrow>
     Data (fst (WithFields fmtv l flds s)) ''stack_trace'' = Some (GString (Sprintf_plus_v fmtv val))
   \<and> Data (fst (WithFields fmtv l flds s)) ''error'' = Some val"
  by (simp add: WithFields_result)

theorem WithFields_stack_trace_witness:
  "[''error'' \<mapsto> GString ''boom''] ''error'' = Some (GString ''boom'' :: unit gvalue)
   \<and> Data (fst (WithFields fmt_unit (New INFO Stdout) [''error'' \<mapsto> GString ''boom''] no_output))
        ''stack_trace'' = Some (GString ''boom'')"
  using WithFields_stack_trace [of "[''error'' \<mapsto> GString ''boom'']" "GString ''boom''"
      fmt_unit "New INFO Stdout" no_output]
  by (simp add: Sprintf_plus_v_def)

text \<open>
  With the empty string as the error value, the returned logger has no field
  \<open>stackTrace\<close>, and its field \<open>stack_trace\<close> is the empty string.
\<close>

theorem WithFields_stack_trace_counterexample:
  "[''error'' \<mapsto> GString ''''] ''error'' = Some (GString '''' :: unit gvalue)
   \<and> Data (fst (WithFields fmt_unit (New INFO Stdout) [''error'' \<mapsto> GString ''''] no_output))
        ''stackTrace'' = None
   \<and> Data (fst (WithFields fmt_unit (New INFO Stdout) [''error'' \<mapsto> GString ''''] no_output))
        ''stack_trace'' = Some (GString '''')"
  by (simp add: WithFields_result New_def Sprintf_plus_v_def)



section \<open>Properties of the recorder\<close>









section \<open>Properties of the correlation context\<close>

text \<open>
  C6. When the lookup of the request ID key gives nil, GetRequestID returns the sentinel
  \<open>Unknown\<close>, and when it gives a string, that string. When the lookup of the logger key
  gives nil, GetLogger returns a new logger at INFO on standard output with no fields, and
  when it gives a Logger, that logger.
\<close>

theorem context_lookup:
  "(ctx_Value ctx ContextKeyRequestID = VNil \<longrightarrow> GetRequestID ctx = Inr ''Unknown'')
   \<and> (ctx_Value ctx ContextKeyRequestID = VString requestID \<longrightarrow>
        GetRequestID ctx = Inr requestID)
   \<and> (ctx_Value ctx ContextKeyLogger = VNil \<longrightarrow>
        GetLogger ctx = Inr (New INFO Stdout)
        \<and> GetLogger ctx = Inr \<lparr>Level_of = InfoLevel, Out = Stdout, Data = Map.empty\<rparr>)
   \<and> (ctx_Value ctx ContextKeyLogger = VLogger logger \<longrightarrow> GetLogger ctx = Inr logger)"
  by (simp add: GetRequestID_def GetLogger_def New_def toLogrusLevel_def
      DEBUG_def INFO_def WARN_def ERROR_def)

theorem context_lookup_witness:
  "ctx_Value ([] :: unit Context) ContextKeyRequestID = VNil
   \<and> ctx_Value ([] :: unit Context) ContextKeyLogger = VNil
   \<and> GetRequestID ([] :: unit Context) = Inr ''Unknown''
   \<and> GetLogger ([] :: unit Context) = Inr (New INFO Stdout)
   \<and> ctx_Value (WithLogger (ctx_WithValue [] ContextKeyRequestID (VString ''id-1''))
        (New ERROR Stdout :: unit Logger)) ContextKeyRequestID = VString ''id-1''
   \<and> ctx_Value (WithLogger (ctx_WithValue [] ContextKeyRequestID (VString ''id-1''))
        (New ERROR Stdout :: unit Logger)) ContextKeyLogger = VLogger (New ERROR Stdout)
   \<and> GetRequestID (WithLogger (ctx_WithValue [] ContextKeyRequestID (VString ''id-1''))
        (New ERROR Stdout :: unit Logger)) = Inr ''id-1''
   \<and> GetLogger (WithLogger (ctx_WithValue [] ContextKeyRequestID (VString ''id-1''))
        (New ERROR Stdout :: unit Logger)) = Inr (New ERROR Stdout)"
  using context_lookup [of "[] :: unit Context" "''id-1''" "New ERROR Stdout"]
    context_lookup [of "WithLogger (ctx_WithValue [] ContextKeyRequestID (VString ''id-1''))
        (New ERROR Stdout :: unit Logger)" "''id-1''" "New ERROR Stdout"]
  by (simp add: WithLogger_def ctx_WithValue_def ContextKeyRequestID_def ContextKeyLogger_def)

text \<open>
  A context that binds an integer under the request ID key makes GetRequestID panic, and
  one that binds a string under the logger key makes GetLogger panic.
\<close>

theorem context_lookup_counterexample:
  "GetRequestID (ctx_WithValue [] ContextKeyRequestID (VInt 42 :: unit ctx_value)) = Inl TypeAssertionFailed
   \<and> GetLogger (ctx_WithValue [] ContextKeyLogger (VString ''logger'' :: unit ctx_value)) = Inl TypeAssertionFailed"
  by (simp add: GetRequestID_def GetLogger_def ctx_WithValue_def)

section \<open>Properties of the middleware\<close>

lemma convertRequestBody_id: "convertRequestBody v = v"
  by (cases v) (simp_all add: convertRequestBody_def)

lemma logRequest_request:
  "fst (logRequest fmtv unm logger r s) =
     (case req_Body r of
        NoBody \<Rightarrow> r
      | Reader buf None \<Rightarrow> r\<lparr>req_Body := Reader buf None\<rparr>
      | Reader buf (Some err) \<Rightarrow> r\<lparr>req_Body := Reader [] (Some err)\<rparr>)"
  by (simp add: logRequest_def WithFields_result Let_def
      split: ReadCloser.splits option.splits sum.splits prod.splits)

lemma logRequest_logged:
  "req_Body r = Reader buf None \<Longrightarrow> Level_of logger = DebugLevel \<Longrightarrow>
   \<exists>en. snd (logRequest fmtv unm logger r s) (Out logger) = s (Out logger) @ [en]
     \<and> entry_fields en ''requestBody'' = Some (case unm buf of Inl err \<Rightarrow> GString buf | Inr v \<Rightarrow> v)"
  by (simp add: logRequest_def WithFields_result Let_def Debugln_def Logln_def convertRequestBody_id
      split: sum.splits)




text \<open>
  C3. For a request whose body is read to its end without a read error, logRequest
  leaves the request as it was, with a body that yields the same bytes again; and a
  logger at the debug level writes one entry whose \<open>requestBody\<close> field is made from all
  of those bytes (the decoded value, or the raw text when decoding fails).
\<close>

theorem logRequest_body_replay:
  "req_Body r = Reader buf None \<Longrightarrow>
     fst (logRequest fmtv unm logger r s) = r
   \<and> req_Body (fst (logRequest fmtv unm logger r s)) = Reader buf None
   \<and> yields (req_Body (fst (logRequest fmtv unm logger r s))) = buf
   \<and> yields (req_Body r) = buf
   \<and> (Level_of logger = DebugLevel \<longrightarrow>
        (\<exists>en. snd (logRequest fmtv unm logger r s) (Out logger) = s (Out logger) @ [en]
           \<and> entry_fields en ''requestBody''
               = Some (case unm buf of Inl err \<Rightarrow> GString buf | Inr v \<Rightarrow> v)))"
  using logRequest_logged [of r buf logger fmtv unm s]
  by (simp add: logRequest_request yields_def)

theorem logRequest_body_replay_witness:
  "req_Body (example_request (Reader ''hello'' None)) = Reader ''hello'' None
   \<and> Level_of (New DEBUG Stdout :: unit Logger) = DebugLevel
   \<and> yields (req_Body (fst (logRequest fmt_unit unm_fail (New DEBUG Stdout)
        (example_request (Reader ''hello'' None)) no_output))) = ''hello''"
  using logRequest_body_replay [of "example_request (Reader ''hello'' None)" "''hello''" fmt_unit
      unm_fail "New DEBUG Stdout" no_output]
  by (simp add: example_request_def New_def toLogrusLevel_def)

text \<open>
  A body that yields \<open>abc\<close> and then fails with a read error: after logRequest the body
  yields nothing, the bytes read before the error are gone.
\<close>

theorem logRequest_body_counterexample:
  "req_Body (example_request (Reader ''abc'' (Some ''unexpected EOF''))) \<noteq> NoBody
   \<and> yields (req_Body (example_request (Reader ''abc'' (Some ''unexpected EOF'')))) = ''abc''
   \<and> yields (req_Body (fst (logRequest fmt_unit unm_fail (New DEBUG Stdout)
        (example_request (Reader ''abc'' (Some ''unexpected EOF''))) no_output))) = []"
  by (simp add: logRequest_request example_request_def yields_def)

text \<open>
  C9. The address of the parameter is never the nil pointer, so the logger the
  middleware works with is the one the caller supplied, at every call: the handler
  returned is the middleware's function for that logger, and the default logger is not
  constructed.
\<close>

theorem default_logger_unreachable:
  "address_of loc \<noteq> nil_pointer
   \<and> middleware_logger loc logger = logger
   \<and> NewMiddlewareWithOptions fmtv unm loc next logger options
       = middleware_func fmtv unm next logger options"
  by (simp add: address_of_def middleware_logger_def NewMiddlewareWithOptions_def)

end
